theory Spec2Isabelle
  imports Complex_Main "HOL-Library.Char_ord" "HOL-Library.List_Lexorder"
    "HOL-Library.Product_Lexorder" "HOL-Library.Multiset"
begin

section \<open>The storage layer of the personal finance tracker (database.py)\<close>

text \<open>
  The class \<open>Database\<close> wraps one SQLite connection holding two tables. Every method is a
  single SQL statement followed by a commit, so the embedding is explicit state passing:
  a method that writes takes the store and returns the new one, a method that reads is a
  function of the store.

  Conventions of the embedding:
  \<^item> \<open>TEXT\<close> columns are \<open>string\<close>; the order on them is the lexicographic order on
    characters, which is what SQLite's default \<open>BINARY\<close> collation computes.
  \<^item> \<open>REAL\<close> columns are \<open>real\<close>: sums are exact. The rounding of IEEE doubles, infinities
    and NaN are outside the model.
  \<^item> \<open>INTEGER PRIMARY KEY AUTOINCREMENT\<close> columns are \<open>int\<close>; the store carries, for each
    table, the counter SQLite keeps in \<open>sqlite_sequence\<close> (0 when the table has no entry).
    An insertion fails when the identifiers of the table are used up. The identifiers
    given to the deleting methods are SQLite integers; a Python integer outside 64 bits
    is not one, and binding it is outside the model.
  \<^item> A table is the list of its rows. All queries of the source either sort their result
    or aggregate it, so the position of a row in the list is never observed.
\<close>

subsection \<open>Rows and store\<close>

record transaction =
  t_id :: int
  t_date :: string
  t_type :: string
  t_category :: string
  t_description :: string
  t_amount :: real

record budget =
  b_id :: int
  b_category :: string
  b_amount :: real

record db =
  transactions :: "transaction list"
  budgets :: "budget list"
  transactions_seq :: int
  budgets_seq :: int

text \<open>The store right after \<open>create_tables\<close> on a fresh file.\<close>

definition empty_db :: db where
  "empty_db = \<lparr>transactions = [], budgets = [], transactions_seq = 0, budgets_seq = 0\<rparr>"

text \<open>
  What the schema of \<open>create_tables\<close> enforces on every store: \<open>id\<close> is a primary key in
  both tables and \<open>budgets.category\<close> is \<open>UNIQUE\<close>.
\<close>

definition schema_ok :: "db \<Rightarrow> bool" where
  "schema_ok d \<longleftrightarrow>
     distinct (map t_id (transactions d)) \<and>
     distinct (map b_id (budgets d)) \<and>
     distinct (map b_category (budgets d))"

subsection \<open>Row identifiers\<close>

datatype error = SQLITE_FULL

definition max_rowid :: int where
  "max_rowid = 9223372036854775807"

text \<open>
  The identifier SQLite gives a row inserted without one into an \<open>AUTOINCREMENT\<close> table:
  one more than the largest identifier in the table (1 for an empty table), raised to one
  more than the counter of \<open>sqlite_sequence\<close>. When either has reached the largest 64-bit
  value the statement fails with \<open>SQLITE_FULL\<close>, which \<open>sqlite3\<close> raises as an exception
  before the commit. The counter becomes the identifier handed out.
\<close>

definition new_rowid :: "int \<Rightarrow> int list \<Rightarrow> error + int" where
  "new_rowid seq ids =
     (if seq \<ge> max_rowid \<or> (ids \<noteq> [] \<and> Max (set ids) \<ge> max_rowid) then Inl SQLITE_FULL
      else Inr (max (seq + 1) (if ids = [] then 1 else Max (set ids) + 1)))"

subsection \<open>Transactions\<close>

text \<open>\<open>INSERT INTO transactions (date, type, category, description, amount) VALUES (?,?,?,?,?)\<close>\<close>

definition add_transaction ::
  "string \<Rightarrow> string \<Rightarrow> string \<Rightarrow> string \<Rightarrow> real \<Rightarrow> db \<Rightarrow> error + db" where
  "add_transaction date type' category description amount d =
     (case new_rowid (transactions_seq d) (map t_id (transactions d)) of
        Inl e \<Rightarrow> Inl e
      | Inr v \<Rightarrow>
          Inr (d\<lparr>transactions := transactions d @
                   [\<lparr>t_id = v, t_date = date, t_type = type', t_category = category,
                     t_description = description, t_amount = amount\<rparr>],
                 transactions_seq := v\<rparr>))"

text \<open>
  \<open>SELECT id, date, type, category, description, amount FROM transactions
  ORDER BY date DESC, id DESC\<close>
\<close>

definition get_transactions :: "db \<Rightarrow> transaction list" where
  "get_transactions d = rev (sort_key (\<lambda>r. (t_date r, t_id r)) (transactions d))"

text \<open>\<open>DELETE FROM transactions WHERE id=?\<close>\<close>

definition delete_transaction :: "int \<Rightarrow> db \<Rightarrow> db" where
  "delete_transaction trans_id d =
     d\<lparr>transactions := filter (\<lambda>r. t_id r \<noteq> trans_id) (transactions d)\<rparr>"

subsection \<open>Budgets\<close>

text \<open>
  \<open>INSERT OR REPLACE INTO budgets (category, amount) VALUES (?, ?)\<close>: the new row gets its
  identifier first; the rows that clash with it on the \<open>UNIQUE\<close> column are deleted, and the
  new row is inserted.
\<close>

definition add_budget :: "string \<Rightarrow> real \<Rightarrow> db \<Rightarrow> error + db" where
  "add_budget category amount d =
     (case new_rowid (budgets_seq d) (map b_id (budgets d)) of
        Inl e \<Rightarrow> Inl e
      | Inr v \<Rightarrow>
          Inr (d\<lparr>budgets := filter (\<lambda>b. b_category b \<noteq> category) (budgets d) @
                   [\<lparr>b_id = v, b_category = category, b_amount = amount\<rparr>],
                 budgets_seq := v\<rparr>))"

text \<open>\<open>SELECT id, category, amount FROM budgets ORDER BY category\<close>\<close>

definition get_budgets :: "db \<Rightarrow> budget list" where
  "get_budgets d = sort_key b_category (budgets d)"

text \<open>\<open>DELETE FROM budgets WHERE id=?\<close>\<close>

definition delete_budget :: "int \<Rightarrow> db \<Rightarrow> db" where
  "delete_budget budget_id d =
     d\<lparr>budgets := filter (\<lambda>b. b_id b \<noteq> budget_id) (budgets d)\<rparr>"

subsection \<open>Aggregation queries\<close>

text \<open>\<open>SUM(amount)\<close> over the selected rows: \<open>NULL\<close> (Python's \<open>None\<close>) when there is none.\<close>

definition sql_sum :: "real list \<Rightarrow> real option" where
  "sql_sum xs = (if xs = [] then None else Some (sum_list xs))"

text \<open>\<open>cursor.fetchone()[0] or 0.0\<close>: \<open>None\<close> and a zero sum are both falsy.\<close>

definition or_zero :: "real option \<Rightarrow> real" where
  "or_zero x = (case x of None \<Rightarrow> 0 | Some v \<Rightarrow> (if v = 0 then 0 else v))"

definition get_summary :: "db \<Rightarrow> real \<times> real \<times> real" where
  "get_summary d =
     (let total_income =
            or_zero (sql_sum (map t_amount
              (filter (\<lambda>r. t_type r = ''Income'') (transactions d))));
          total_expense =
            or_zero (sql_sum (map t_amount
              (filter (\<lambda>r. t_type r = ''Expense'') (transactions d))))
      in (total_income, total_expense, total_income - total_expense))"


text \<open>\<open>substr(date, 1, 7)\<close>: the first seven characters, fewer when the text is shorter.\<close>

definition month_of :: "string \<Rightarrow> string" where
  "month_of date = take 7 date"

text \<open>
  \<open>SELECT substr(date, 1, 7) AS month,
         SUM(CASE WHEN type='Income' THEN amount ELSE 0 END) AS income_total,
         SUM(CASE WHEN type='Expense' THEN amount ELSE 0 END) AS expense_total
  FROM transactions GROUP BY month ORDER BY month\<close>
\<close>

definition get_monthly_summary :: "db \<Rightarrow> (string \<times> real \<times> real) list" where
  "get_monthly_summary d =
     (let rows = transactions d;
          months = sort (remdups (map (\<lambda>r. month_of (t_date r)) rows))
      in map (\<lambda>m. (m,
                sum_list (map (\<lambda>r. if t_type r = ''Income'' then t_amount r else 0)
                  (filter (\<lambda>r. month_of (t_date r) = m) rows)),
                sum_list (map (\<lambda>r. if t_type r = ''Expense'' then t_amount r else 0)
                  (filter (\<lambda>r. month_of (t_date r) = m) rows))))
           months)"

subsection \<open>Sequences of calls\<close>

text \<open>
  The writing methods of \<open>Database\<close> as commands, and the store a sequence of calls leaves.
  A call that raises ends the sequence, as the exception would.
\<close>

datatype call =
    AddTransaction string string string string real
  | DeleteTransaction int
  | AddBudget string real
  | DeleteBudget int

fun apply_call :: "call \<Rightarrow> db \<Rightarrow> error + db" where
  "apply_call (AddTransaction date type' category description amount) d =
     add_transaction date type' category description amount d"
| "apply_call (DeleteTransaction trans_id) d = Inr (delete_transaction trans_id d)"
| "apply_call (AddBudget category amount) d = add_budget category amount d"
| "apply_call (DeleteBudget budget_id) d = Inr (delete_budget budget_id d)"

fun run_calls :: "call list \<Rightarrow> db \<Rightarrow> error + db" where
  "run_calls [] d = Inr d"
| "run_calls (c # cs) d =
     (case apply_call c d of Inl e \<Rightarrow> Inl e | Inr d' \<Rightarrow> run_calls cs d')"

text \<open>
  The check \<open>add_transaction\<close> of app.py makes on the amount before it calls the storage
  layer (\<open>if amount <= 0: raise ValueError\<close>).
\<close>

fun validated :: "call \<Rightarrow> bool" where
  "validated (AddTransaction date type' category description amount) = (0 < amount)"
| "validated _ = True"

subsection \<open>A sample store\<close>

text \<open>
  A store as four calls of \<open>add_transaction\<close> and two of \<open>add_budget\<close> leave it, used to
  evaluate the operations on concrete data.
\<close>

definition sample_db :: db where
  "sample_db =
     \<lparr>transactions =
        [\<lparr>t_id = 1, t_date = ''2024-01-15'', t_type = ''Income'',
          t_category = ''Salary'', t_description = [], t_amount = 2000\<rparr>,
         \<lparr>t_id = 2, t_date = ''2024-01-28'', t_type = ''Expense'',
          t_category = ''Groceries'', t_description = [], t_amount = 301 / 2\<rparr>,
         \<lparr>t_id = 3, t_date = ''2024-03-05'', t_type = ''Expense'',
          t_category = ''Rent'', t_description = [], t_amount = 800\<rparr>,
         \<lparr>t_id = 4, t_date = ''2024-01-28'', t_type = ''Expense'',
          t_category = ''Groceries'', t_description = [], t_amount = 50\<rparr>],
      budgets =
        [\<lparr>b_id = 1, b_category = ''Food'', b_amount = 100\<rparr>,
         \<lparr>b_id = 2, b_category = ''Rent'', b_amount = 900\<rparr>],
      transactions_seq = 4, budgets_seq = 2\<rparr>"

section \<open>Auxiliary facts\<close>

lemma new_rowid_above_ids: "new_rowid seq ids = Inr v \<Longrightarrow> i \<in> set ids \<Longrightarrow> i < v"
proof -
  assume a: "new_rowid seq ids = Inr v" and b: "i \<in> set ids"
  from b have ne: "ids \<noteq> []" by auto
  from b have "i \<le> Max (set ids)" by simp
  moreover from a ne have "Max (set ids) + 1 \<le> v"
    by (auto simp add: new_rowid_def split: if_splits)
  ultimately show "i < v" by linarith
qed

lemma filter_fresh_id:
  "\<forall>x \<in> set xs. f x \<noteq> v \<Longrightarrow> filter (\<lambda>x. f x \<noteq> v) xs = xs"
  by (simp add: filter_id_conv)

lemma filter_remove_one:
  "distinct (map f xs) \<Longrightarrow> i \<in> f ` set xs \<Longrightarrow>
   \<exists>ys r zs. xs = ys @ r # zs \<and> f r = i \<and> filter (\<lambda>x. f x \<noteq> i) xs = ys @ zs"
proof -
  assume d: "distinct (map f xs)" and i: "i \<in> f ` set xs"
  from i obtain r where r: "r \<in> set xs" "f r = i" by auto
  then obtain ys zs where xs: "xs = ys @ r # zs" by (auto simp add: in_set_conv_decomp)
  from d xs r have "\<forall>x \<in> set ys. f x \<noteq> i" "\<forall>x \<in> set zs. f x \<noteq> i"
    by (auto simp add: image_iff)
  then have "filter (\<lambda>x. f x \<noteq> i) xs = ys @ zs"
    using r by (simp add: xs filter_fresh_id)
  with xs r show ?thesis by blast
qed

lemma add_transaction_rows:
  assumes "add_transaction date ty cat desc amt d = Inr d'"
  shows "\<exists>v. new_rowid (transactions_seq d) (map t_id (transactions d)) = Inr v \<and>
     d' = d\<lparr>transactions := transactions d @
                   [\<lparr>t_id = v, t_date = date, t_type = ty, t_category = cat,
                     t_description = desc, t_amount = amt\<rparr>],
                 transactions_seq := v\<rparr>"
  using assms by (auto simp add: add_transaction_def split: sum.splits)

lemma add_budget_rows:
  assumes "add_budget cat amt d = Inr d'"
  shows "\<exists>v. new_rowid (budgets_seq d) (map b_id (budgets d)) = Inr v \<and>
     d' = d\<lparr>budgets := filter (\<lambda>b. b_category b \<noteq> cat) (budgets d) @
                   [\<lparr>b_id = v, b_category = cat, b_amount = amt\<rparr>],
                 budgets_seq := v\<rparr>"
  using assms by (auto simp add: add_budget_def split: sum.splits)


section \<open>The summary\<close>



section \<open>Listing, inserting and deleting transactions\<close>

text \<open>
  C3. For every store, \<open>get_transactions\<close> returns exactly the stored rows (each as often
  as it is stored), by date descending and, among rows of one date, by identifier
  descending; on the empty store it returns the empty list.
\<close>

theorem get_transactions_ordered:
  "mset (get_transactions d) = mset (transactions d) \<and>
   sorted_wrt (\<lambda>a b. t_date b < t_date a \<or> (t_date a = t_date b \<and> t_id b \<le> t_id a))
     (get_transactions d) \<and>
   get_transactions empty_db = []"
proof -
  have "sorted (map (\<lambda>r. (t_date r, t_id r))
      (sort_key (\<lambda>r. (t_date r, t_id r)) (transactions d)))"
    by (rule sorted_sort_key)
  then have "sorted_wrt (\<lambda>a b. (t_date a, t_id a) \<le> (t_date b, t_id b))
      (sort_key (\<lambda>r. (t_date r, t_id r)) (transactions d))"
    by (simp add: sorted_wrt_map)
  then have "sorted_wrt (\<lambda>a b. (t_date b, t_id b) \<le> (t_date a, t_id a)) (get_transactions d)"
    by (simp add: get_transactions_def sorted_wrt_rev)
  then have "sorted_wrt
      (\<lambda>a b. t_date b < t_date a \<or> (t_date a = t_date b \<and> t_id b \<le> t_id a))
      (get_transactions d)"
    by (rule sorted_wrt_mono_rel[rotated]) (auto simp add: less_eq_prod_def)
  then show ?thesis
    by (simp add: get_transactions_def empty_db_def)
qed

text \<open>
  C7. When \<open>add_transaction\<close> succeeds, the identifier of the row it stored is new, and
  \<open>delete_transaction\<close> with that identifier gives back the table of transactions as it
  was (the budgets are untouched throughout), so \<open>get_transactions\<close> returns the list it
  returned before the insertion.
\<close>

theorem add_then_delete_restores:
  assumes "add_transaction date ty cat desc amt d = Inr d'"
  shows "t_id (last (transactions d')) \<notin> t_id ` set (transactions d) \<and>
     t_id (last (transactions d')) = transactions_seq d' \<and>
     transactions (delete_transaction (t_id (last (transactions d'))) d') = transactions d \<and>
     budgets (delete_transaction (t_id (last (transactions d'))) d') = budgets d \<and>
     get_transactions (delete_transaction (t_id (last (transactions d'))) d') =
       get_transactions d"
proof -
  from add_transaction_rows[OF assms] obtain v where
    v: "new_rowid (transactions_seq d) (map t_id (transactions d)) = Inr v" and
    d': "d' = d\<lparr>transactions := transactions d @
                   [\<lparr>t_id = v, t_date = date, t_type = ty, t_category = cat,
                     t_description = desc, t_amount = amt\<rparr>],
                 transactions_seq := v\<rparr>"
    by blast
  have fresh: "\<forall>r \<in> set (transactions d). t_id r \<noteq> v"
    using new_rowid_above_ids[OF v] by fastforce
  have l: "t_id (last (transactions d')) = v" by (simp add: d')
  have rows: "transactions (delete_transaction v d') = transactions d"
    using fresh by (simp add: d' delete_transaction_def filter_fresh_id)
  have "get_transactions (delete_transaction v d') = get_transactions d"
    by (simp add: get_transactions_def rows)
  then show ?thesis
    using fresh rows l by (auto simp add: d' delete_transaction_def)
qed

theorem add_then_delete_restores_witness:
  "add_transaction ''2024-03-05'' ''Expense'' ''Groceries'' '''' (301 / 2)
     \<lparr>transactions =
        [\<lparr>t_id = 1, t_date = ''2024-03-01'', t_type = ''Income'',
          t_category = ''Salary'', t_description = '''', t_amount = 2000\<rparr>],
      budgets = [], transactions_seq = 1, budgets_seq = 0\<rparr> =
   Inr \<lparr>transactions =
        [\<lparr>t_id = 1, t_date = ''2024-03-01'', t_type = ''Income'',
          t_category = ''Salary'', t_description = '''', t_amount = 2000\<rparr>,
         \<lparr>t_id = 2, t_date = ''2024-03-05'', t_type = ''Expense'',
          t_category = ''Groceries'', t_description = '''', t_amount = 301 / 2\<rparr>],
      budgets = [], transactions_seq = 2, budgets_seq = 0\<rparr> \<and>
   get_transactions (delete_transaction 2
     \<lparr>transactions =
        [\<lparr>t_id = 1, t_date = ''2024-03-01'', t_type = ''Income'',
          t_category = ''Salary'', t_description = '''', t_amount = 2000\<rparr>,
         \<lparr>t_id = 2, t_date = ''2024-03-05'', t_type = ''Expense'',
          t_category = ''Groceries'', t_description = '''', t_amount = 301 / 2\<rparr>],
      budgets = [], transactions_seq = 2, budgets_seq = 0\<rparr>) =
   get_transactions
     \<lparr>transactions =
        [\<lparr>t_id = 1, t_date = ''2024-03-01'', t_type = ''Income'',
          t_category = ''Salary'', t_description = '''', t_amount = 2000\<rparr>],
      budgets = [], transactions_seq = 1, budgets_seq = 0\<rparr>"
proof -
  have h: "add_transaction ''2024-03-05'' ''Expense'' ''Groceries'' '''' (301 / 2)
     \<lparr>transactions =
        [\<lparr>t_id = 1, t_date = ''2024-03-01'', t_type = ''Income'',
          t_category = ''Salary'', t_description = '''', t_amount = 2000\<rparr>],
      budgets = [], transactions_seq = 1, budgets_seq = 0\<rparr> =
   Inr \<lparr>transactions =
        [\<lparr>t_id = 1, t_date = ''2024-03-01'', t_type = ''Income'',
          t_category = ''Salary'', t_description = '''', t_amount = 2000\<rparr>,
         \<lparr>t_id = 2, t_date = ''2024-03-05'', t_type = ''Expense'',
          t_category = ''Groceries'', t_description = '''', t_amount = 301 / 2\<rparr>],
      budgets = [], transactions_seq = 2, budgets_seq = 0\<rparr>"
    by (simp add: add_transaction_def new_rowid_def max_rowid_def)
  show ?thesis
    using h add_then_delete_restores [OF h] by simp
qed



section \<open>Budgets\<close>

text \<open>Every writing method keeps what the schema enforces.\<close>

lemma add_transaction_schema:
  assumes "schema_ok d" "add_transaction date ty cat desc amt d = Inr d'"
  shows "schema_ok d'"
proof -
  from add_transaction_rows[OF assms(2)] obtain v where
    v: "new_rowid (transactions_seq d) (map t_id (transactions d)) = Inr v" and
    d': "d' = d\<lparr>transactions := transactions d @
                   [\<lparr>t_id = v, t_date = date, t_type = ty, t_category = cat,
                     t_description = desc, t_amount = amt\<rparr>],
                 transactions_seq := v\<rparr>"
    by blast
  have "\<forall>r \<in> set (transactions d). t_id r \<noteq> v"
    using new_rowid_above_ids[OF v] by fastforce
  then show ?thesis using assms(1) by (auto simp add: schema_ok_def d')
qed

lemma add_budget_schema:
  assumes "schema_ok d" "add_budget cat amt d = Inr d'"
  shows "schema_ok d'"
proof -
  from add_budget_rows[OF assms(2)] obtain v where
    v: "new_rowid (budgets_seq d) (map b_id (budgets d)) = Inr v" and
    d': "d' = d\<lparr>budgets := filter (\<lambda>b. b_category b \<noteq> cat) (budgets d) @
                   [\<lparr>b_id = v, b_category = cat, b_amount = amt\<rparr>],
                 budgets_seq := v\<rparr>"
    by blast
  have "\<forall>r \<in> set (budgets d). b_id r \<noteq> v"
    using new_rowid_above_ids[OF v] by fastforce
  then show ?thesis using assms(1)
    by (auto simp add: schema_ok_def d' distinct_map_filter)
qed

lemma delete_schema:
  "schema_ok d \<Longrightarrow> schema_ok (delete_transaction i d)"
  "schema_ok d \<Longrightarrow> schema_ok (delete_budget i d)"
  by (simp_all add: schema_ok_def delete_transaction_def delete_budget_def distinct_map_filter)

lemma apply_call_schema:
  "schema_ok d \<Longrightarrow> apply_call c d = Inr d' \<Longrightarrow> schema_ok d'"
  by (cases c) (auto simp add: delete_schema dest: add_transaction_schema add_budget_schema)

lemma run_calls_schema:
  "schema_ok d \<Longrightarrow> run_calls cs d = Inr d' \<Longrightarrow> schema_ok d'"
proof (induction cs arbitrary: d)
  case Nil
  then show ?case by simp
next
  case (Cons c cs)
  then show ?case
    by (auto split: sum.splits dest: apply_call_schema)
qed

lemma length_filter_remove_one:
  assumes "distinct (map f xs)" "c \<in> f ` set xs"
  shows "Suc (length (filter (\<lambda>x. f x \<noteq> c) xs)) = length xs"
proof -
  from filter_remove_one[OF assms] obtain ys r zs where
    "xs = ys @ r # zs" "filter (\<lambda>x. f x \<noteq> c) xs = ys @ zs" by blast
  then show ?thesis by simp
qed

lemma add_budget_effect:
  assumes "schema_ok d" "add_budget c a d = Inr d'"
  shows "distinct (map b_category (budgets d')) \<and>
    (\<exists>b. filter (\<lambda>b. b_category b = c) (budgets d') = [b] \<and> b_amount b = a) \<and>
    filter (\<lambda>b. b_category b \<noteq> c) (budgets d') =
      filter (\<lambda>b. b_category b \<noteq> c) (budgets d) \<and>
    length (budgets d') =
      (if c \<in> b_category ` set (budgets d) then length (budgets d)
       else length (budgets d) + 1) \<and>
    transactions d' = transactions d"
proof -
  from add_budget_rows[OF assms(2)] obtain v where
    d': "d' = d\<lparr>budgets := filter (\<lambda>b. b_category b \<noteq> c) (budgets d) @
                   [\<lparr>b_id = v, b_category = c, b_amount = a\<rparr>],
                 budgets_seq := v\<rparr>"
    by blast
  have 1: "distinct (map b_category (budgets d'))"
    using add_budget_schema[OF assms] by (simp add: schema_ok_def)
  have 2: "filter (\<lambda>b. b_category b = c) (budgets d') =
      [\<lparr>b_id = v, b_category = c, b_amount = a\<rparr>]"
    by (simp add: d' filter_empty_conv)
  have 3: "filter (\<lambda>b. b_category b \<noteq> c) (budgets d') =
      filter (\<lambda>b. b_category b \<noteq> c) (budgets d)"
    by (simp add: d')
  have 4: "length (budgets d') =
      (if c \<in> b_category ` set (budgets d) then length (budgets d)
       else length (budgets d) + 1)"
  proof (cases "c \<in> b_category ` set (budgets d)")
    case True
    from assms(1) have "distinct (map b_category (budgets d))" by (simp add: schema_ok_def)
    from length_filter_remove_one[OF this True] True show ?thesis by (simp add: d')
  next
    case False
    then have "\<forall>b \<in> set (budgets d). b_category b \<noteq> c" by auto
    then have "filter (\<lambda>b. b_category b \<noteq> c) (budgets d) = budgets d"
      by (rule filter_fresh_id)
    with False show ?thesis by (simp add: d')
  qed
  have 5: "transactions d' = transactions d" by (simp add: d')
  from 1 2 3 4 5 show ?thesis by simp
qed

text \<open>
  C2. On a store that satisfies the schema, a successful \<open>add_budget\<close> leaves every
  category in at most one budget row: exactly one row carries the given category, with
  the given amount; the rows of the other categories are as before; the number of rows is
  unchanged when the category had a budget and one more when it had none. The same
  uniqueness holds after any sequence of calls, and \<open>add_budget "Food" 100\<close> followed by
  \<open>add_budget "Food" 150\<close> leaves one row for Food, with amount 150.
\<close>

theorem add_budget_upsert:
  assumes "schema_ok d"
  shows "(add_budget c a d = Inr d' \<longrightarrow>
      distinct (map b_category (budgets d')) \<and>
      (\<exists>b. filter (\<lambda>b. b_category b = c) (budgets d') = [b] \<and> b_amount b = a) \<and>
      filter (\<lambda>b. b_category b \<noteq> c) (budgets d') =
        filter (\<lambda>b. b_category b \<noteq> c) (budgets d) \<and>
      length (budgets d') =
        (if c \<in> b_category ` set (budgets d) then length (budgets d)
         else length (budgets d) + 1)) \<and>
    (run_calls cs d = Inr d'' \<longrightarrow> distinct (map b_category (budgets d''))) \<and>
    (run_calls [AddBudget ''Food'' 100, AddBudget ''Food'' 150] d = Inr d3 \<longrightarrow>
      (\<exists>b. filter (\<lambda>b. b_category b = ''Food'') (budgets d3) = [b] \<and> b_amount b = 150))"
proof -
  have a: "run_calls cs d = Inr d'' \<Longrightarrow> distinct (map b_category (budgets d''))"
    using run_calls_schema[OF assms] by (simp add: schema_ok_def)
  have b: "\<exists>b. filter (\<lambda>b. b_category b = ''Food'') (budgets d3) = [b] \<and> b_amount b = 150"
    if r: "run_calls [AddBudget ''Food'' 100, AddBudget ''Food'' 150] d = Inr d3"
  proof -
    from r obtain d1 where d1: "add_budget ''Food'' 100 d = Inr d1"
      and d3: "add_budget ''Food'' 150 d1 = Inr d3"
      by (auto split: sum.splits)
    from add_budget_schema[OF assms d1] have "schema_ok d1" .
    from add_budget_effect[OF this d3] show ?thesis by simp
  qed
  show ?thesis using add_budget_effect[OF assms] a b by blast
qed

theorem add_budget_upsert_witness:
  "schema_ok sample_db \<and>
   add_budget ''Food'' 150 sample_db =
     Inr (sample_db\<lparr>budgets :=
            [\<lparr>b_id = 2, b_category = ''Rent'', b_amount = 900\<rparr>,
             \<lparr>b_id = 3, b_category = ''Food'', b_amount = 150\<rparr>],
          budgets_seq := 3\<rparr>) \<and>
   run_calls [AddBudget ''Food'' 100, AddBudget ''Food'' 150] sample_db =
     Inr (sample_db\<lparr>budgets :=
            [\<lparr>b_id = 2, b_category = ''Rent'', b_amount = 900\<rparr>,
             \<lparr>b_id = 4, b_category = ''Food'', b_amount = 150\<rparr>],
          budgets_seq := 4\<rparr>) \<and>
   distinct (map b_category (budgets (sample_db\<lparr>budgets :=
            [\<lparr>b_id = 2, b_category = ''Rent'', b_amount = 900\<rparr>,
             \<lparr>b_id = 3, b_category = ''Food'', b_amount = 150\<rparr>],
          budgets_seq := 3\<rparr>))) \<and>
   length (budgets (sample_db\<lparr>budgets :=
            [\<lparr>b_id = 2, b_category = ''Rent'', b_amount = 900\<rparr>,
             \<lparr>b_id = 3, b_category = ''Food'', b_amount = 150\<rparr>],
          budgets_seq := 3\<rparr>)) = length (budgets sample_db) \<and>
   distinct (map b_category (budgets (sample_db\<lparr>budgets :=
            [\<lparr>b_id = 2, b_category = ''Rent'', b_amount = 900\<rparr>,
             \<lparr>b_id = 4, b_category = ''Food'', b_amount = 150\<rparr>],
          budgets_seq := 4\<rparr>))) \<and>
   map b_amount (filter (\<lambda>b. b_category b = ''Food'') (budgets (sample_db\<lparr>budgets :=
            [\<lparr>b_id = 2, b_category = ''Rent'', b_amount = 900\<rparr>,
             \<lparr>b_id = 4, b_category = ''Food'', b_amount = 150\<rparr>],
          budgets_seq := 4\<rparr>))) = [150]"
proof -
  have h0: "schema_ok sample_db"
    by (simp add: sample_db_def schema_ok_def)
  have h1: "add_budget ''Food'' 150 sample_db =
     Inr (sample_db\<lparr>budgets :=
            [\<lparr>b_id = 2, b_category = ''Rent'', b_amount = 900\<rparr>,
             \<lparr>b_id = 3, b_category = ''Food'', b_amount = 150\<rparr>],
          budgets_seq := 3\<rparr>)"
    by (simp add: sample_db_def add_budget_def new_rowid_def max_rowid_def)
  have h2: "run_calls [AddBudget ''Food'' 100, AddBudget ''Food'' 150] sample_db =
     Inr (sample_db\<lparr>budgets :=
            [\<lparr>b_id = 2, b_category = ''Rent'', b_amount = 900\<rparr>,
             \<lparr>b_id = 4, b_category = ''Food'', b_amount = 150\<rparr>],
          budgets_seq := 4\<rparr>)"
    by (simp add: sample_db_def add_budget_def new_rowid_def max_rowid_def)
  from add_budget_upsert [OF h0, of "''Food''" 150 _
      "[AddBudget ''Food'' 100, AddBudget ''Food'' 150]"] h1 h2
  have "distinct (map b_category (budgets (sample_db\<lparr>budgets :=
            [\<lparr>b_id = 2, b_category = ''Rent'', b_amount = 900\<rparr>,
             \<lparr>b_id = 3, b_category = ''Food'', b_amount = 150\<rparr>],
          budgets_seq := 3\<rparr>)))"
    and "distinct (map b_category (budgets (sample_db\<lparr>budgets :=
            [\<lparr>b_id = 2, b_category = ''Rent'', b_amount = 900\<rparr>,
             \<lparr>b_id = 4, b_category = ''Food'', b_amount = 150\<rparr>],
          budgets_seq := 4\<rparr>)))"
    by blast+
  then show ?thesis using h0 h1 h2 by (simp add: sample_db_def)
qed



section \<open>Amounts\<close>

text \<open>
  The storage layer stores the amount it is given. The amounts in the store are positive
  when the amounts of the calls are, which is what the form of app.py checks.
\<close>

lemma apply_call_amounts:
  assumes "\<forall>r \<in> set (transactions d). 0 < t_amount r" "validated c" "apply_call c d = Inr d'"
  shows "\<forall>r \<in> set (transactions d'). 0 < t_amount r"
proof (cases c)
  case (AddTransaction date ty cat desc amt)
  with assms(3) have "add_transaction date ty cat desc amt d = Inr d'" by simp
  from add_transaction_rows[OF this] obtain v where
    "d' = d\<lparr>transactions := transactions d @
                   [\<lparr>t_id = v, t_date = date, t_type = ty, t_category = cat,
                     t_description = desc, t_amount = amt\<rparr>],
                 transactions_seq := v\<rparr>" by blast
  with assms(1,2) AddTransaction show ?thesis by auto
next
  case (DeleteTransaction i)
  with assms show ?thesis by (auto simp add: delete_transaction_def)
next
  case (AddBudget cat amt)
  with assms(3) have "add_budget cat amt d = Inr d'" by simp
  from add_budget_rows[OF this] have "transactions d' = transactions d" by auto
  with assms(1) show ?thesis by simp
next
  case (DeleteBudget i)
  with assms show ?thesis by (auto simp add: delete_budget_def)
qed

lemma run_calls_amounts:
  "\<forall>r \<in> set (transactions d). 0 < t_amount r \<Longrightarrow> \<forall>c \<in> set cs. validated c \<Longrightarrow>
   run_calls cs d = Inr d' \<Longrightarrow> \<forall>r \<in> set (transactions d'). 0 < t_amount r"
proof (induction cs arbitrary: d)
  case Nil
  then show ?case by simp
next
  case (Cons c cs)
  from Cons.prems(3) obtain d1 where d1: "apply_call c d = Inr d1"
    and rest: "run_calls cs d1 = Inr d'"
    by (auto split: sum.splits)
  from Cons.prems(2) have vc: "validated c" and vcs: "\<forall>c \<in> set cs. validated c" by simp_all
  from apply_call_amounts[OF Cons.prems(1) vc d1]
  have "\<forall>r \<in> set (transactions d1). 0 < t_amount r" .
  from Cons.IH[OF this vcs rest] show ?case .
qed

text \<open>
  C9, as stated, fails: \<open>add_transaction\<close> called on the empty store with the amount
  \<open>-5\<close> succeeds and stores a row whose amount is not positive.
\<close>

theorem stored_amount_positive_counterexample:
  "run_calls [AddTransaction ''2024-03-05'' ''Expense'' ''Groceries'' [] (- 5)] empty_db =
     Inr \<lparr>transactions =
        [\<lparr>t_id = 1, t_date = ''2024-03-05'', t_type = ''Expense'',
          t_category = ''Groceries'', t_description = [], t_amount = - 5\<rparr>],
      budgets = [], transactions_seq = 1, budgets_seq = 0\<rparr> \<and>
   \<not> (\<forall>r \<in> set (transactions
     \<lparr>transactions =
        [\<lparr>t_id = 1, t_date = ''2024-03-05'', t_type = ''Expense'',
          t_category = ''Groceries'', t_description = [], t_amount = - 5\<rparr>],
      budgets = [], transactions_seq = 1, budgets_seq = 0\<rparr>). 0 < t_amount r)"
  by (simp add: empty_db_def add_transaction_def new_rowid_def max_rowid_def)

text \<open>
  C9, amended. In every store reached from the empty store by calls whose
  \<open>add_transaction\<close> amounts are positive, every stored transaction has an amount above 0.
\<close>

theorem validated_amounts_positive:
  assumes "run_calls cs empty_db = Inr d" "\<forall>c \<in> set cs. validated c"
  shows "\<forall>r \<in> set (transactions d). 0 < t_amount r"
proof -
  have "\<forall>r \<in> set (transactions empty_db). 0 < t_amount r" by (simp add: empty_db_def)
  from run_calls_amounts[OF this assms(2) assms(1)] show ?thesis .
qed

theorem validated_amounts_positive_witness:
  "run_calls [AddTransaction ''2024-03-01'' ''Income'' ''Salary'' [] 2000,
              AddTransaction ''2024-03-05'' ''Expense'' ''Groceries'' [] (301 / 2)] empty_db =
     Inr \<lparr>transactions =
        [\<lparr>t_id = 1, t_date = ''2024-03-01'', t_type = ''Income'',
          t_category = ''Salary'', t_description = [], t_amount = 2000\<rparr>,
         \<lparr>t_id = 2, t_date = ''2024-03-05'', t_type = ''Expense'',
          t_category = ''Groceries'', t_description = [], t_amount = 301 / 2\<rparr>],
      budgets = [], transactions_seq = 2, budgets_seq = 0\<rparr> \<and>
   list_all validated
     [AddTransaction ''2024-03-01'' ''Income'' ''Salary'' [] 2000,
      AddTransaction ''2024-03-05'' ''Expense'' ''Groceries'' [] (301 / 2)] \<and>
   list_all (\<lambda>r. 0 < t_amount r) (transactions
     \<lparr>transactions =
        [\<lparr>t_id = 1, t_date = ''2024-03-01'', t_type = ''Income'',
          t_category = ''Salary'', t_description = [], t_amount = 2000\<rparr>,
         \<lparr>t_id = 2, t_date = ''2024-03-05'', t_type = ''Expense'',
          t_category = ''Groceries'', t_description = [], t_amount = 301 / 2\<rparr>],
      budgets = [], transactions_seq = 2, budgets_seq = 0\<rparr>)"
proof -
  have h1: "run_calls [AddTransaction ''2024-03-01'' ''Income'' ''Salary'' [] 2000,
              AddTransaction ''2024-03-05'' ''Expense'' ''Groceries'' [] (301 / 2)] empty_db =
     Inr \<lparr>transactions =
        [\<lparr>t_id = 1, t_date = ''2024-03-01'', t_type = ''Income'',
          t_category = ''Salary'', t_description = [], t_amount = 2000\<rparr>,
         \<lparr>t_id = 2, t_date = ''2024-03-05'', t_type = ''Expense'',
          t_category = ''Groceries'', t_description = [], t_amount = 301 / 2\<rparr>],
      budgets = [], transactions_seq = 2, budgets_seq = 0\<rparr>"
    by (simp add: empty_db_def add_transaction_def new_rowid_def max_rowid_def)
  have h2: "\<forall>c \<in> set [AddTransaction ''2024-03-01'' ''Income'' ''Salary'' [] 2000,
      AddTransaction ''2024-03-05'' ''Expense'' ''Groceries'' [] (301 / 2)]. validated c"
    by simp
  from validated_amounts_positive [OF h1 h2] h1 h2 show ?thesis
    by (simp add: list_all_iff)
qed

section \<open>Expenses by category\<close>












section \<open>The monthly summary\<close>




section \<open>The operations on concrete stores\<close>

text \<open>Every store reached from the empty one satisfies the schema.\<close>

lemma reachable_schema_ok: "run_calls cs empty_db = Inr d \<Longrightarrow> schema_ok d"
proof -
  have "schema_ok empty_db" by (simp add: schema_ok_def empty_db_def)
  then show "run_calls cs empty_db = Inr d \<Longrightarrow> schema_ok d" by (rule run_calls_schema)
qed

text \<open>
  The listing of the sample store: the two rows of 2024-01-28 come in descending order of
  their identifiers.
\<close>

lemma get_transactions_sample: "map t_id (get_transactions sample_db) = [3, 4, 2, 1]"
  by (simp add: get_transactions_def sample_db_def less_eq_prod_def)

text \<open>The scenario of the specification: a salary and a purchase in March 2024.\<close>

lemma scenario_store:
  "run_calls [AddTransaction ''2024-03-01'' ''Income'' ''Salary'' [] 2000,
              AddTransaction ''2024-03-05'' ''Expense'' ''Groceries'' [] (301 / 2)] empty_db =
     Inr \<lparr>transactions =
        [\<lparr>t_id = 1, t_date = ''2024-03-01'', t_type = ''Income'',
          t_category = ''Salary'', t_description = [], t_amount = 2000\<rparr>,
         \<lparr>t_id = 2, t_date = ''2024-03-05'', t_type = ''Expense'',
          t_category = ''Groceries'', t_description = [], t_amount = 301 / 2\<rparr>],
      budgets = [], transactions_seq = 2, budgets_seq = 0\<rparr>"
  by (simp add: empty_db_def add_transaction_def new_rowid_def max_rowid_def)

lemma scenario_queries:
  "get_summary
     \<lparr>transactions =
        [\<lparr>t_id = 1, t_date = ''2024-03-01'', t_type = ''Income'',
          t_category = ''Salary'', t_description = [], t_amount = 2000\<rparr>,
         \<lparr>t_id = 2, t_date = ''2024-03-05'', t_type = ''Expense'',
          t_category = ''Groceries'', t_description = [], t_amount = 301 / 2\<rparr>],
      budgets = [], transactions_seq = 2, budgets_seq = 0\<rparr> = (2000, 301 / 2, 3699 / 2)"
  "get_monthly_summary
     \<lparr>transactions =
        [\<lparr>t_id = 1, t_date = ''2024-03-01'', t_type = ''Income'',
          t_category = ''Salary'', t_description = [], t_amount = 2000\<rparr>,
         \<lparr>t_id = 2, t_date = ''2024-03-05'', t_type = ''Expense'',
          t_category = ''Groceries'', t_description = [], t_amount = 301 / 2\<rparr>],
      budgets = [], transactions_seq = 2, budgets_seq = 0\<rparr> = [(''2024-03'', 2000, 301 / 2)]"
  by (simp_all add: get_summary_def sql_sum_def or_zero_def get_monthly_summary_def month_of_def)

end
